theory Spec2Isabelle
  imports Complex_Main "HOL-Library.Sublist"
begin

section \<open>Strings\<close>

text \<open>
  A Python \<open>str\<close> is modelled as a \<open>string\<close> whose characters stand for the code points
  U+0000 to U+00FF (so that the accented letters of the French column names are single
  characters, as they are in Python). Strings with code points beyond that range are
  outside the model.
\<close>

definition py_isspace :: "char \<Rightarrow> bool" where
  \<comment> \<open>the characters \<open>str.strip()\<close> removes: U+0009..U+000D, U+001C..U+0020, U+0085, U+00A0\<close>
  "py_isspace c =
     (let n = (of_char c :: nat)
      in (9 \<le> n \<and> n \<le> 13) \<or> (28 \<le> n \<and> n \<le> 32) \<or> n = 133 \<or> n = 160)"

definition strip :: "string \<Rightarrow> string" where
  "strip s = rev (dropWhile py_isspace (rev (dropWhile py_isspace s)))"

definition lower_char :: "char \<Rightarrow> char" where
  \<comment> \<open>\<open>A..Z\<close> and U+00C0..U+00DE (without the multiplication sign U+00D7) have a lower case\<close>
  "lower_char c =
     (let n = (of_char c :: nat)
      in if (65 \<le> n \<and> n \<le> 90) \<or> (192 \<le> n \<and> n \<le> 222 \<and> n \<noteq> 215)
         then char_of (n + 32) else c)"

definition lower :: "string \<Rightarrow> string" where
  "lower s = map lower_char s"

definition upper_char :: "char \<Rightarrow> string" where
  \<comment> \<open>U+00DF upper-cases to \<open>SS\<close>. The upper-case forms of U+00B5 and U+00FF lie beyond
      U+00FF; the character is kept, which like them is none of \<open>N\<close>, \<open>/\<close>, \<open>A\<close>.\<close>
  "upper_char c =
     (let n = (of_char c :: nat)
      in if (97 \<le> n \<and> n \<le> 122) \<or> (224 \<le> n \<and> n \<le> 254 \<and> n \<noteq> 247)
         then [char_of (n - 32)]
         else if n = 223 then ''SS'' else [c])"

definition upper :: "string \<Rightarrow> string" where
  "upper s = concat (map upper_char s)"

fun py_in :: "string \<Rightarrow> string \<Rightarrow> bool" where
  \<comment> \<open>\<open>kw in s\<close> on strings: \<open>kw\<close> occurs in \<open>s\<close> as a contiguous run\<close>
  "py_in kw [] = (kw = [])"
| "py_in kw (c # cs) = (prefix kw (c # cs) \<or> py_in kw cs)"

definition endswith :: "string \<Rightarrow> string \<Rightarrow> bool" where
  "endswith s suf = suffix suf s"

definition basename :: "string \<Rightarrow> string" where
  \<comment> \<open>\<open>os.path.basename\<close> (POSIX): what follows the last \<open>/\<close>\<close>
  "basename p = rev (takeWhile (\<lambda>c. c \<noteq> CHR ''/'') (rev p))"

section \<open>Cells and frames\<close>

text \<open>
  The values a cell of a pandas frame holds in this program. The four nulls are kept
  apart because \<open>astype(str)\<close> prints them differently. Numbers are rationals (the code
  only compares them with 0), a timestamp is its count of nanoseconds.
\<close>

datatype cell =
    PdNA | NaN | NaT | PyNone
  | Str string | Num rat | Ts int | Bool bool

fun isna :: "cell \<Rightarrow> bool" where
  "isna PdNA = True"
| "isna NaN = True"
| "isna NaT = True"
| "isna PyNone = True"
| "isna _ = False"

record frame =
  columns :: "string list"
  rows :: "cell list list"

definition rectangular :: "frame \<Rightarrow> bool" where
  "rectangular df = list_all (\<lambda>r. length r = length (columns df)) (rows df)"

definition df_empty :: "frame \<Rightarrow> bool" where
  \<comment> \<open>\<open>df.empty\<close>: one of the two axes has length 0\<close>
  "df_empty df = (rows df = [] \<or> columns df = [])"

definition applymap :: "(cell \<Rightarrow> cell) \<Rightarrow> frame \<Rightarrow> frame" where
  "applymap f df = df\<lparr>rows := map (map f) (rows df)\<rparr>"

definition map_columns :: "(string \<Rightarrow> cell \<Rightarrow> cell) \<Rightarrow> frame \<Rightarrow> frame" where
  \<comment> \<open>a loop \<open>for col in df.columns: df[col] = g(df[col])\<close> with \<open>g\<close> acting cell by cell\<close>
  "map_columns f df = df\<lparr>rows := map (\<lambda>r. map (\<lambda>(c, v). f c v) (zip (columns df) r)) (rows df)\<rparr>"

definition set_column :: "string \<Rightarrow> cell \<Rightarrow> frame \<Rightarrow> frame" where
  \<comment> \<open>\<open>df[name] = v\<close> for a scalar \<open>v\<close>: an existing column of that name is overwritten where
      it stands, otherwise a new column is added at the end\<close>
  "set_column name v df =
     (if name \<in> set (columns df)
      then df\<lparr>rows := map (\<lambda>r. map (\<lambda>(c, x). if c = name then v else x) (zip (columns df) r)) (rows df)\<rparr>
      else df\<lparr>columns := columns df @ [name], rows := map (\<lambda>r. r @ [v]) (rows df)\<rparr>)"

definition nonzero :: "bool list \<Rightarrow> nat list" where
  \<comment> \<open>\<open>mask.to_numpy().nonzero()[0]\<close>: the positions holding True, ascending\<close>
  "nonzero bs = filter (\<lambda>i. bs ! i) [0..<length bs]"

section \<open>Missing values\<close>

definition is_missing :: "cell \<Rightarrow> bool" where
  \<comment> \<open>the test of the lambda given to \<open>applymap\<close>, the same in both programs\<close>
  "is_missing x =
     (isna x \<or> (case x of Str s \<Rightarrow> strip s = '''' \<or> upper (strip s) = ''N/A'' | _ \<Rightarrow> False))"

definition na_replace :: "cell \<Rightarrow> cell" where
  "na_replace x = (if is_missing x then PdNA else x)"

section \<open>The library's conversions\<close>

text \<open>
  pandas is not part of the repository. How it reads one scalar as a number or as a
  date, and how it prints a number or a timestamp, are parameters of the model. What the
  program fixes is modelled: with \<open>errors='coerce'\<close> a scalar that cannot be read becomes
  NaN or NaT instead of raising.
\<close>

record pandas =
  numeric_of :: "cell \<Rightarrow> rat option"
  datetime_of :: "cell \<Rightarrow> int option"
  strftime_ymd :: "int \<Rightarrow> string"
  str_of_num :: "rat \<Rightarrow> string"
  str_of_ts :: "int \<Rightarrow> string"

fun to_numeric :: "pandas \<Rightarrow> cell \<Rightarrow> cell" where
  \<comment> \<open>\<open>pd.to_numeric(col, errors='coerce')\<close> on one cell\<close>
  "to_numeric L (Num n) = Num n"
| "to_numeric L c =
     (if isna c then NaN
      else case numeric_of L c of None \<Rightarrow> NaN | Some n \<Rightarrow> Num n)"

fun to_datetime :: "pandas \<Rightarrow> cell \<Rightarrow> cell" where
  \<comment> \<open>\<open>pd.to_datetime(col, errors='coerce')\<close> on one cell\<close>
  "to_datetime L (Ts t) = Ts t"
| "to_datetime L c =
     (if isna c then NaT
      else case datetime_of L c of None \<Rightarrow> NaT | Some t \<Rightarrow> Ts t)"

fun dt_strftime :: "pandas \<Rightarrow> cell \<Rightarrow> cell" where
  \<comment> \<open>\<open>.dt.strftime('%Y-%m-%d')\<close> on a cell of a datetime column: NaT gives NaN\<close>
  "dt_strftime L (Ts t) = Str (strftime_ymd L t)"
| "dt_strftime L c = NaN"

fun astype_str :: "pandas \<Rightarrow> cell \<Rightarrow> cell" where
  \<comment> \<open>\<open>.astype(str)\<close> on a cell of an object column: nulls are printed too\<close>
  "astype_str L (Str s) = Str s"
| "astype_str L PdNA = Str ''<NA>''"
| "astype_str L NaN = Str ''nan''"
| "astype_str L NaT = Str ''NaT''"
| "astype_str L PyNone = Str ''None''"
| "astype_str L (Num n) = Str (str_of_num L n)"
| "astype_str L (Ts t) = Str (str_of_ts L t)"
| "astype_str L (Bool b) = Str (if b then ''True'' else ''False'')"

definition replace_na :: "string list \<Rightarrow> cell \<Rightarrow> cell" where
  \<comment> \<open>\<open>.replace({k: pd.NA for k in keys})\<close> on one cell\<close>
  "replace_na keys c = (case c of Str s \<Rightarrow> if s \<in> set keys then PdNA else c | _ \<Rightarrow> c)"

section \<open>Interactive cleaning (\<open>streamlit_app.py\<close>)\<close>

datatype col_type = Text | Numeric | Date

definition coerce :: "pandas \<Rightarrow> col_type option \<Rightarrow> cell \<Rightarrow> cell" where
  \<comment> \<open>step 2 of \<open>clean_and_prepare_df\<close>; \<open>None\<close> is a column absent from the type map\<close>
  "coerce L ty c =
     (case ty of
        None \<Rightarrow> replace_na [''nan'', ''<NA>''] (astype_str L c)
      | Some Date \<Rightarrow> to_datetime L c
      | Some Numeric \<Rightarrow> to_numeric L c
      | Some Text \<Rightarrow> replace_na [''nan'', ''<NA>'', ''''] (astype_str L c))"

definition format_out :: "pandas \<Rightarrow> col_type option \<Rightarrow> cell \<Rightarrow> cell" where
  \<comment> \<open>step 4: a Date column, which step 2 made a datetime column, is printed\<close>
  "format_out L ty c =
     (if ty = Some Date then replace_na [''<NA>'', ''NaT'', ''''] (dt_strftime L c) else c)"

definition normalize_cell :: "pandas \<Rightarrow> col_type option \<Rightarrow> cell \<Rightarrow> cell" where
  \<comment> \<open>what \<open>clean_and_prepare_df\<close> does to one cell of a column of type \<open>ty\<close>\<close>
  "normalize_cell L ty v = format_out L ty (coerce L ty (na_replace v))"

definition row_all_na :: "cell list \<Rightarrow> bool" where
  \<comment> \<open>one entry of \<open>df.isna().all(axis=1)\<close>\<close>
  "row_all_na r = list_all isna r"

definition trim :: "frame \<Rightarrow> frame" where
  \<comment> \<open>step 3 of \<open>clean_and_prepare_df\<close>\<close>
  "trim df =
     (if \<not> df_empty df then
        (let all_empty_mask_rows = map row_all_na (rows df)
         in if list_all id all_empty_mask_rows then df\<lparr>rows := []\<rparr>
            else (let non_empty_idx = nonzero (map Not all_empty_mask_rows)
                  in if length non_empty_idx > 0
                     then df\<lparr>rows := take (last non_empty_idx + 1) (rows df)\<rparr>
                     else df))
      else df)"

definition clean_and_prepare_df ::
  "pandas \<Rightarrow> frame \<Rightarrow> string \<Rightarrow> (string \<rightharpoonup> col_type) \<Rightarrow> frame" where
  "clean_and_prepare_df L df_input source_file_name column_type_map =
     (let df1 = applymap na_replace df_input;
          df2 = map_columns (\<lambda>col_name. coerce L (column_type_map col_name)) df1;
          df3 = trim df2;
          df4 = set_column ''Source_File'' (Str (basename source_file_name)) df3
      in map_columns
           (\<lambda>col_name c. if col_name = ''Source_File'' then c
                          else format_out L (column_type_map col_name) c) df4)"

subsection \<open>Reference columns and suggested types (upload handling)\<close>

definition date_keywords :: "string list" where
  "date_keywords =
     [''date'', ''facture'', CHR 0xE9 # ''ch'' @ CHR 0xE9 # ''ance'', ''dt'', ''time'']"

definition numeric_keywords :: "string list" where
  "numeric_keywords =
     [''code'', ''montant'', ''prix'', ''qt'' @ [CHR 0xE9], ''taux'', ''total'', ''num'', ''id'',
      ''valeur'', ''quantity'', ''amount'', ''sum'', ''count'']"

definition suggest_type :: "string \<Rightarrow> col_type" where
  \<comment> \<open>the body of the loop over the reference columns; a column name is a string\<close>
  "suggest_type col =
     (let col_lower = lower col
      in if list_ex (\<lambda>kw. py_in kw col_lower) date_keywords then Date
         else if list_ex (\<lambda>kw. py_in kw col_lower) numeric_keywords then Numeric
         else Text)"

record upload =
  file_name :: string
  content :: "frame option"

datatype message =
    Info_empty_for_columns string
  | Warning_columns_unreadable string
  | Warning_column_mismatch string "string list" "string list"
  | Error_processing string

record session =
  column_names_standard :: "string list"
  user_column_types :: "string \<rightharpoonup> col_type"
  first_excel_file_processed_for_cols :: bool
  notices :: "message list"

definition new_session :: session where
  "new_session =
     \<lparr>column_names_standard = [], user_column_types = Map.empty,
      first_excel_file_processed_for_cols = False, notices = []\<rparr>"

definition upload_step :: "upload \<Rightarrow> session \<Rightarrow> session" where
  \<comment> \<open>one turn of \<open>for uploaded_file in uploaded_files\<close>; \<open>content\<close> is what
      \<open>pd.read_excel\<close> returns, \<open>None\<close> when it raises\<close>
  "upload_step f s =
     (if \<not> first_excel_file_processed_for_cols s then
        (case content f of
           None \<Rightarrow> s\<lparr>notices := notices s @ [Warning_columns_unreadable (file_name f)]\<rparr>
         | Some temp_df_for_cols \<Rightarrow>
             if \<not> df_empty temp_df_for_cols then
               s\<lparr>column_names_standard := columns temp_df_for_cols,
                  user_column_types :=
                    fold (\<lambda>col temp_types. temp_types(col \<mapsto> suggest_type col))
                      (columns temp_df_for_cols) Map.empty,
                  first_excel_file_processed_for_cols := True\<rparr>
             else s\<lparr>notices := notices s @ [Info_empty_for_columns (file_name f)]\<rparr>)
      else s)"

definition handle_upload :: "upload list \<Rightarrow> session" where
  "handle_upload uploaded_files = fold upload_step uploaded_files new_session"

subsection \<open>Processing the files\<close>

definition process_step ::
  "pandas \<Rightarrow> string list \<Rightarrow> (string \<rightharpoonup> col_type) \<Rightarrow> upload
     \<Rightarrow> frame list \<times> message list \<Rightarrow> frame list \<times> message list" where
  \<comment> \<open>one turn of the loop of the process button\<close>
  "process_step L standard types f acc =
     (case acc of (all_dfs, msgs) \<Rightarrow>
        (case content f of
           None \<Rightarrow> (all_dfs, msgs @ [Error_processing (file_name f)])
         | Some current_df_raw \<Rightarrow>
             if columns current_df_raw \<noteq> standard
             then (all_dfs,
                   msgs @ [Warning_column_mismatch (file_name f) standard (columns current_df_raw)])
             else (all_dfs @ [clean_and_prepare_df L current_df_raw (file_name f) types], msgs)))"

definition process_loop ::
  "pandas \<Rightarrow> string list \<Rightarrow> (string \<rightharpoonup> col_type) \<Rightarrow> upload list
     \<Rightarrow> frame list \<times> message list" where
  "process_loop L standard types files = fold (process_step L standard types) files ([], [])"

definition reindex :: "string list \<Rightarrow> frame \<Rightarrow> cell list list" where
  \<comment> \<open>the rows of a frame laid out on the columns \<open>cols\<close>, NaN where it has none\<close>
  "reindex cols df =
     map (\<lambda>r. map (\<lambda>c. case map_of (zip (columns df) r) c of None \<Rightarrow> NaN | Some v \<Rightarrow> v) cols)
       (rows df)"

definition concat_frames :: "frame list \<Rightarrow> frame" where
  \<comment> \<open>\<open>pd.concat(dfs, ignore_index=True)\<close>: the columns in order of first appearance\<close>
  "concat_frames dfs =
     (let cols = rev (remdups (rev (concat (map columns dfs))))
      in \<lparr>columns = cols, rows = concat (map (reindex cols) dfs)\<rparr>)"

definition to_sql :: "frame \<Rightarrow> frame" where
  \<comment> \<open>the table written: a null cell of any kind is stored as NULL\<close>
  "to_sql df = applymap (\<lambda>c. if isna c then PyNone else c) df"

definition process_button ::
  "pandas \<Rightarrow> string list \<Rightarrow> (string \<rightharpoonup> col_type) \<Rightarrow> upload list
     \<Rightarrow> frame option \<times> message list" where
  \<comment> \<open>The final pass replaces in the columns of dtype object; a column that holds a string
      has that dtype, and the replacement changes strings only.\<close>
  "process_button L standard types files =
     (case process_loop L standard types files of (all_dfs, msgs) \<Rightarrow>
        if all_dfs \<noteq> []
        then (Some (applymap (replace_na [''nan'', ''<NA>'', ''NaT'', '''']) (concat_frames all_dfs)),
              msgs)
        else (None, msgs))"

section \<open>Batch cleaning (\<open>consolidate_any.py\<close>)\<close>

datatype dtype = Object | Number | Datetime | Boolean

fun is_number :: "cell \<Rightarrow> bool" where
  "is_number (Num n) = True"
| "is_number _ = False"

fun is_ts :: "cell \<Rightarrow> bool" where
  "is_ts (Ts t) = True"
| "is_ts _ = False"

fun is_bool :: "cell \<Rightarrow> bool" where
  "is_bool (Bool b) = True"
| "is_bool _ = False"

definition infer_dtype :: "cell list \<Rightarrow> dtype" where
  \<comment> \<open>the dtype pandas gives a column that \<open>applymap\<close> returns: a string or \<open>pd.NA\<close> among
      the cells makes it object\<close>
  "infer_dtype cs =
     (if cs \<noteq> [] \<and> list_all is_number cs then Number
      else if cs \<noteq> [] \<and> list_all is_ts cs then Datetime
      else if cs \<noteq> [] \<and> list_all is_bool cs then Boolean
      else Object)"

definition dtypes_of :: "frame \<Rightarrow> dtype list" where
  "dtypes_of df =
     map (\<lambda>j. infer_dtype (map (\<lambda>r. r ! j) (rows df))) [0..<length (columns df)]"

definition select_dtypes :: "dtype \<Rightarrow> dtype list \<Rightarrow> nat list" where
  \<comment> \<open>the positions of the columns of one dtype\<close>
  "select_dtypes d dts = filter (\<lambda>j. dts ! j = d) [0..<length dts]"

definition all_empty_mask :: "dtype list \<Rightarrow> cell list list \<Rightarrow> bool list" where
  "all_empty_mask dts rs =
     (let obj_cols = select_dtypes Object dts;
          num_cols = select_dtypes Number dts;
          obj_empty_mask =
            (if length obj_cols > 0
             then Some (map (\<lambda>r. map (\<lambda>j. isna (r ! j)) obj_cols) rs) else None);
          num_empty_mask =
            (if length num_cols > 0
             then Some (map (\<lambda>r. map (\<lambda>j. isna (r ! j) \<or> r ! j = Num 0) num_cols) rs) else None)
      in case (obj_empty_mask, num_empty_mask) of
           (Some om, Some nm) \<Rightarrow> map (\<lambda>(a, b). list_all id a \<and> list_all id b) (zip om nm)
         | (Some om, None) \<Rightarrow> map (list_all id) om
         | (None, Some nm) \<Rightarrow> map (list_all id) nm
         | (None, None) \<Rightarrow> replicate (length rs) True)"

definition batch_trim :: "dtype list \<Rightarrow> cell list list \<Rightarrow> cell list list" where
  "batch_trim dts rs =
     (let non_empty_idx = nonzero (map Not (all_empty_mask dts rs))
      in if length non_empty_idx > 0 then take (last non_empty_idx + 1) rs else rs)"

definition date_cols :: "string list" where
  "date_cols =
     [''Date'' @ CHR 0x0A # ''Facture'', ''Date '' @ CHR 0xE9 # ''ch'' @ CHR 0xE9 # ''ance'']"

definition numeric_cols :: "string list" where
  "numeric_cols =
     [''Code Centre'', ''Code Client'', ''Qt'' @ CHR 0xE9 # ''s factur'' @ CHR 0xE9 # ''es'',
      ''Prix unitaire'' @ CHR 0x0A # ''en euros HT'', ''Total'' @ CHR 0x0A # ''en euros HT'',
      ''TAUX TVA'', ''Montant TVA'' @ CHR 0x0A # ''par article'']"

definition process_file :: "pandas \<Rightarrow> upload \<Rightarrow> frame option" where
  \<comment> \<open>\<open>file_name\<close> is the path; any exception gives \<open>None\<close>. The dtypes are those after
      \<open>applymap\<close>; a printed date column and \<open>Source_File\<close> are object columns, a column
      \<open>to_numeric\<close> returns is a number column.\<close>
  "process_file L file =
     (if endswith (file_name file) ''.xlsb'' \<or> endswith (file_name file) ''.xlsx'' then
        (case content file of
           None \<Rightarrow> None
         | Some df0 \<Rightarrow>
             (let df1 = applymap na_replace df0;
                  dts = dtypes_of df1;
                  df2 = df1\<lparr>rows := batch_trim dts (rows df1)\<rparr>;
                  df3 = set_column ''Source_File'' (Str (basename (file_name file))) df2;
                  df4 = map_columns
                          (\<lambda>col c. if col \<in> set date_cols then dt_strftime L (to_datetime L c) else c) df3;
                  df5 = map_columns
                          (\<lambda>col c. if col \<in> set numeric_cols then to_numeric L c else c) df4;
                  dts5 = map (\<lambda>(col, d). if col \<in> set numeric_cols then Number
                                           else if col \<in> set date_cols \<or> col = ''Source_File'' then Object
                                           else d)
                           (zip (columns df5) (dts @ [Object]))
              in Some (df5\<lparr>rows :=
                         map (\<lambda>r. map (\<lambda>(d, c). if d = Object then astype_str L c else c) (zip dts5 r))
                           (rows df5)\<rparr>)))
      else None)"

datatype error = No_valid_data

definition process_files :: "pandas \<Rightarrow> upload list \<Rightarrow> error + frame" where
  \<comment> \<open>from the results of the pool to the table \<open>DATA\<close>\<close>
  "process_files L excel_files =
     (let results = map (process_file L) excel_files;
          dfs = map the (filter (\<lambda>df. df \<noteq> None) results)
      in if dfs = [] then Inl No_valid_data
         else
           (let final_df = concat_frames dfs;
                final_df = applymap (\<lambda>c. if c = Str ''nan'' then PyNone else c) final_df;
                final_df = applymap (\<lambda>c. if isna c then PyNone else c) final_df;
                final_df = applymap (\<lambda>c. case c of Ts t \<Rightarrow> Str (strftime_ymd L t) | _ \<Rightarrow> c) final_df
            in Inr (to_sql final_df)))"

section \<open>A library instance for evaluation\<close>

text \<open>
  The theorems below hold for every library \<open>L\<close>. Where one of them is evaluated at a
  concrete input, this instance is used: it reads a string of decimal digits as a number
  and nothing as a date.
\<close>

definition read_digits :: "string \<Rightarrow> rat option" where
  "read_digits s =
     (if s \<noteq> [] \<and> list_all (\<lambda>c. 48 \<le> (of_char c :: nat) \<and> (of_char c :: nat) \<le> 57) s
      then Some (foldl (\<lambda>a c. 10 * a + of_nat (of_char c - 48)) 0 s) else None)"

definition digits_only :: pandas where
  "digits_only =
     \<lparr>numeric_of = (\<lambda>c. case c of Str s \<Rightarrow> read_digits s | _ \<Rightarrow> None),
      datetime_of = (\<lambda>c. None),
      strftime_ymd = (\<lambda>t. ''1970-01-01''),
      str_of_num = (\<lambda>n. ''0''),
      str_of_ts = (\<lambda>t. ''1970-01-01 00:00:00'')\<rparr>"

section \<open>Positions of the last non-blank row\<close>

lemma nonzero_snoc: "nonzero (bs @ [b]) = nonzero bs @ (if b then [length bs] else [])"
proof -
  have "filter (\<lambda>i. (bs @ [b]) ! i) [0..<length bs] = filter (\<lambda>i. bs ! i) [0..<length bs]"
    by (rule filter_cong) (auto simp: nth_append)
  then show ?thesis by (simp add: nonzero_def)
qed

lemma set_nonzero: "set (nonzero bs) = {i. i < length bs \<and> bs ! i}"
  by (auto simp: nonzero_def)

lemma nonzero_empty_iff: "nonzero bs = [] \<longleftrightarrow> (\<forall>i<length bs. \<not> bs ! i)"
  by (auto simp: nonzero_def filter_empty_conv)

lemma last_nonzero:
  "nonzero bs \<noteq> [] \<Longrightarrow>
     last (nonzero bs) < length bs \<and> bs ! last (nonzero bs) \<and>
     (\<forall>j. last (nonzero bs) < j \<and> j < length bs \<longrightarrow> \<not> bs ! j)"
proof (induction bs rule: rev_induct)
  case Nil
  then show ?case by (simp add: nonzero_def)
next
  case (snoc b bs)
  show ?case
  proof (cases b)
    case True
    then show ?thesis by (auto simp: nonzero_snoc nth_append)
  next
    case False
    with snoc.prems have ne: "nonzero bs \<noteq> []" by (simp add: nonzero_snoc)
    from snoc.IH [OF ne] False show ?thesis
      by (auto simp: nonzero_snoc nth_append less_Suc_eq)
  qed
qed


lemma nonzero_take_last:
  assumes "nonzero bs \<noteq> []"
  shows "nonzero (take (Suc (last (nonzero bs))) bs) \<noteq> [] \<and>
         last (nonzero (take (Suc (last (nonzero bs))) bs)) = last (nonzero bs)"
proof -
  let ?k = "last (nonzero bs)"
  from last_nonzero [OF assms] have k: "?k < length bs" "bs ! ?k" by auto
  have "take (Suc ?k) bs = take ?k bs @ [bs ! ?k]"
    using k(1) by (simp add: take_Suc_conv_app_nth)
  then have "nonzero (take (Suc ?k) bs) = nonzero (take ?k bs) @ [?k]"
    using k by (simp add: nonzero_snoc min_def)
  then show ?thesis by simp
qed


lemma take_last_nonzero_idem:
  assumes "nonzero (map Not (map P rs)) \<noteq> []"
  shows "nonzero (map Not (map P (take (Suc (last (nonzero (map Not (map P rs))))) rs))) \<noteq> [] \<and>
         last (nonzero (map Not (map P (take (Suc (last (nonzero (map Not (map P rs))))) rs)))) =
           last (nonzero (map Not (map P rs)))"
  using nonzero_take_last [OF assms] by (simp add: take_map del: map_map)

lemma nonzero_not_empty_iff:
  "nonzero (map Not (map P rs)) = [] \<longleftrightarrow> list_all id (map P rs)"
  by (auto simp: nonzero_empty_iff list_all_length simp del: map_map)

lemma trim_idem: "trim (trim df) = trim df"
proof (cases "df_empty df")
  case True
  then show ?thesis by (simp add: trim_def)
next
  case ne: False
  show ?thesis
  proof (cases "list_all id (map row_all_na (rows df))")
    case True
    with ne have "trim df = df\<lparr>rows := []\<rparr>" by (simp add: trim_def)
    then show ?thesis by (simp add: trim_def df_empty_def)
  next
    case False
    let ?idx = "nonzero (map Not (map row_all_na (rows df)))"
    from False have idx: "?idx \<noteq> []" by (simp add: nonzero_not_empty_iff del: map_map)
    let ?k = "last ?idx"
    from ne False idx have t: "trim df = df\<lparr>rows := take (Suc ?k) (rows df)\<rparr>"
      by (simp add: trim_def Let_def del: map_map)
    from take_last_nonzero_idem [OF idx]
    have idx': "nonzero (map Not (map row_all_na (take (Suc ?k) (rows df)))) \<noteq> []"
      and k': "last (nonzero (map Not (map row_all_na (take (Suc ?k) (rows df))))) = ?k"
      by auto
    from idx' have nall: "\<not> list_all id (map row_all_na (take (Suc ?k) (rows df)))"
      by (simp add: nonzero_not_empty_iff del: map_map)
    from ne have ne': "\<not> df_empty (df\<lparr>rows := take (Suc ?k) (rows df)\<rparr>)"
      by (auto simp: df_empty_def)
    have "trim (df\<lparr>rows := take (Suc ?k) (rows df)\<rparr>) = df\<lparr>rows := take (Suc ?k) (rows df)\<rparr>"
      using ne' nall idx' k' by (simp add: trim_def Let_def del: map_map)
    with t show ?thesis by simp
  qed
qed

lemma all_empty_mask_map:
  "all_empty_mask dts rs =
     map (\<lambda>r. \<forall>j<length dts. (dts ! j = Object \<longrightarrow> isna (r ! j)) \<and>
                               (dts ! j = Number \<longrightarrow> isna (r ! j) \<or> r ! j = Num 0)) rs"
proof -
  have z: "\<And>f g (xs :: cell list list). zip (map f xs) (map g xs) = map (\<lambda>x. (f x, g x)) xs"
    by (simp add: zip_map_map zip_same_conv_map)
  have o: "\<And>r. list_all id (map (\<lambda>j. isna (r ! j)) (select_dtypes Object dts)) =
             (\<forall>j<length dts. dts ! j = Object \<longrightarrow> isna (r ! j))"
    by (auto simp: list_all_iff select_dtypes_def)
  have n: "\<And>r. list_all id (map (\<lambda>j. isna (r ! j) \<or> r ! j = Num 0) (select_dtypes Number dts)) =
             (\<forall>j<length dts. dts ! j = Number \<longrightarrow> isna (r ! j) \<or> r ! j = Num 0)"
    by (auto simp: list_all_iff select_dtypes_def)
  have oe: "select_dtypes Object dts = [] \<Longrightarrow> (\<forall>j<length dts. dts ! j \<noteq> Object)"
    by (auto simp: select_dtypes_def filter_empty_conv)
  have ne: "select_dtypes Number dts = [] \<Longrightarrow> (\<forall>j<length dts. dts ! j \<noteq> Number)"
    by (auto simp: select_dtypes_def filter_empty_conv)
  show ?thesis
  proof (cases "select_dtypes Object dts = []")
    case oT: True
    show ?thesis
    proof (cases "select_dtypes Number dts = []")
      case True
      with oT oe ne show ?thesis
        by (simp add: all_empty_mask_def map_replicate_const [symmetric])
    next
      case False
      with oT oe show ?thesis
        by (simp add: all_empty_mask_def Let_def n comp_def)
    qed
  next
    case oF: False
    show ?thesis
    proof (cases "select_dtypes Number dts = []")
      case True
      with oF ne show ?thesis
        by (simp add: all_empty_mask_def Let_def o comp_def)
    next
      case False
      with oF show ?thesis
        by (auto simp: all_empty_mask_def Let_def z o n comp_def)
    qed
  qed
qed

lemma batch_trim_idem: "batch_trim dts (batch_trim dts rs) = batch_trim dts rs"
proof -
  define P where "P = (\<lambda>r. \<forall>j<length dts. (dts ! j = Object \<longrightarrow> isna (r ! j)) \<and>
                               (dts ! j = Number \<longrightarrow> isna (r ! j) \<or> r ! j = Num 0))"
  have m: "\<And>xs. all_empty_mask dts xs = map P xs"
    by (simp add: all_empty_mask_map P_def)
  show ?thesis
  proof (cases "nonzero (map Not (map P rs)) = []")
    case True
    then show ?thesis by (simp add: batch_trim_def m del: map_map)
  next
    case False
    from take_last_nonzero_idem [OF False] False show ?thesis
      by (simp add: batch_trim_def m Let_def del: map_map)
  qed
qed


section \<open>Cell normalization\<close>

lemma normalize_cell_PdNA: "isna (normalize_cell L (Some T) PdNA)"
  by (cases T) (simp_all add: normalize_cell_def na_replace_def is_missing_def coerce_def
      format_out_def replace_na_def)

text \<open>
  Claim C1. A cell that is null, or a string whose stripped form is empty, or a string
  whose stripped, upper-cased form is \<open>N/A\<close>, is replaced by \<open>pd.NA\<close> in step 1, before any
  coercion: what the column's type then makes of it is what it makes of \<open>pd.NA\<close>, and
  that is a null for each of Text, Numeric and Date.
\<close>

theorem missing_is_detected_before_coercion:
  assumes "isna v \<or> (\<exists>s. v = Str s \<and> (strip s = '''' \<or> upper (strip s) = ''N/A''))"
  shows "na_replace v = PdNA \<and> normalize_cell L (Some T) v = normalize_cell L (Some T) PdNA
         \<and> isna (normalize_cell L (Some T) v)"
proof -
  from assms have m: "is_missing v" by (auto simp: is_missing_def)
  then have r: "na_replace v = PdNA" by (simp add: na_replace_def)
  have p: "na_replace PdNA = PdNA" by (simp add: na_replace_def is_missing_def)
  from r p have "normalize_cell L (Some T) v = normalize_cell L (Some T) PdNA"
    by (simp add: normalize_cell_def)
  with r normalize_cell_PdNA [of L T] show ?thesis by simp
qed

lemma upper_strip_na: "upper (strip '' n/a '') = ''N/A''"
  by code_simp

theorem missing_is_detected_before_coercion_witness:
  "na_replace (Str '' n/a '') = PdNA
   \<and> normalize_cell digits_only (Some Numeric) (Str '' n/a '') =
       normalize_cell digits_only (Some Numeric) PdNA
   \<and> isna (normalize_cell digits_only (Some Numeric) (Str '' n/a ''))"
proof -
  have h: "isna (Str '' n/a '')
           \<or> (\<exists>s. Str '' n/a '' = Str s \<and> (strip s = '''' \<or> upper (strip s) = ''N/A''))"
    using upper_strip_na by simp
  show ?thesis by (rule missing_is_detected_before_coercion [OF h])
qed




section \<open>Suggested column types\<close>



section \<open>Trimming the trailing blank rows\<close>

text \<open>
  Claim C9. Trimming twice is trimming once, for the trimming of the interactive program
  and for that of the batch program (with the dtypes it was given).
\<close>

theorem trim_idempotent:
  "trim (trim df) = trim df \<and> batch_trim dts (batch_trim dts rs) = batch_trim dts rs"
  by (simp add: trim_idem batch_trim_idem)







text \<open>When every row is blank the batch trim keeps them all: it has no branch for that case.\<close>

lemma batch_trim_keeps_all_blank: "batch_trim [Object] [[PdNA], [PdNA]] = [[PdNA], [PdNA]]"
  by code_simp

text \<open>
  Claim C4. For the batch mask a 0 in a number column is blank, for the interactive mask
  it is not; on a frame whose last row holds only a 0 in its number column the batch
  cleaning returns one row and the interactive cleaning two.
\<close>

theorem cleanings_differ_on_trailing_zero:
  "all_empty_mask [Number] [[Num 0]] = [True] \<and> map row_all_na [[Num 0]] = [False]
   \<and> map_option rows (process_file L \<lparr>file_name = ''f.xlsx'',
          content = Some \<lparr>columns = [''B''], rows = [[Num 1], [Num 0]]\<rparr>\<rparr>) =
       Some [[Num 1, Str ''f.xlsx'']]
   \<and> rows (clean_and_prepare_df L \<lparr>columns = [''B''], rows = [[Num 1], [Num 0]]\<rparr> ''f.xlsx''
          [''B'' \<mapsto> Numeric]) =
       [[Num 1, Str ''f.xlsx''], [Num 0, Str ''f.xlsx'']]"
proof -
  have a: "all_empty_mask [Number] [[Num 0]] = [True]" by code_simp
  have b: "map row_all_na [[Num 0]] = [False]" by code_simp
  have m: "\<not> is_missing (Num 1)" "\<not> is_missing (Num 0)" by (simp_all add: is_missing_def)
  have bn: "basename ''f.xlsx'' = ''f.xlsx''" by code_simp
  have e: "endswith ''f.xlsx'' ''.xlsx''" by code_simp
  have dt: "dtypes_of \<lparr>columns = [''B''], rows = [[Num 1], [Num 0]]\<rparr> = [Number]" by code_simp
  have bt: "batch_trim [Number] [[Num 1], [Num 0]] = [[Num 1]]" by code_simp
  have nd: "''B'' \<notin> set date_cols" "''B'' \<notin> set numeric_cols"
    "''Source_File'' \<notin> set date_cols" "''Source_File'' \<notin> set numeric_cols" by code_simp+
  have c: "map_option rows (process_file L \<lparr>file_name = ''f.xlsx'',
          content = Some \<lparr>columns = [''B''], rows = [[Num 1], [Num 0]]\<rparr>\<rparr>) =
       Some [[Num 1, Str ''f.xlsx'']]"
    using nd by (simp add: process_file_def e applymap_def na_replace_def m dt bt set_column_def bn
        map_columns_def Let_def)
  have tr: "trim \<lparr>columns = [''B''], rows = [[Num 1], [Num 0]]\<rparr> =
      \<lparr>columns = [''B''], rows = [[Num 1], [Num 0]]\<rparr>"
    by code_simp
  have d: "rows (clean_and_prepare_df L \<lparr>columns = [''B''], rows = [[Num 1], [Num 0]]\<rparr> ''f.xlsx''
          [''B'' \<mapsto> Numeric]) =
       [[Num 1, Str ''f.xlsx''], [Num 0, Str ''f.xlsx'']]"
    by (simp add: clean_and_prepare_df_def applymap_def na_replace_def m map_columns_def coerce_def
        tr set_column_def bn format_out_def Let_def)
  from a b c d show ?thesis by simp
qed

section \<open>The provenance column\<close>

lemma rectangular_iff: "rectangular df \<longleftrightarrow> (\<forall>r\<in>set (rows df). length r = length (columns df))"
  by (simp add: rectangular_def list_all_iff)

lemma rectangular_applymap: "rectangular df \<Longrightarrow> rectangular (applymap f df)"
  by (auto simp: rectangular_iff applymap_def)

lemma columns_applymap: "columns (applymap f df) = columns df"
  by (simp add: applymap_def)

lemma rectangular_map_columns: "rectangular df \<Longrightarrow> rectangular (map_columns f df)"
  by (auto simp: rectangular_iff map_columns_def)

lemma columns_map_columns: "columns (map_columns f df) = columns df"
  by (simp add: map_columns_def)

lemma rows_trim_subset: "set (rows (trim df)) \<subseteq> set (rows df)"
  by (auto simp: trim_def Let_def dest: in_set_takeD)

lemma columns_trim: "columns (trim df) = columns df"
  by (simp add: trim_def Let_def)

lemma rectangular_trim: "rectangular df \<Longrightarrow> rectangular (trim df)"
  using rows_trim_subset [of df] by (auto simp: rectangular_iff columns_trim)

lemma columns_set_column:
  "columns (set_column n v df) = (if n \<in> set (columns df) then columns df else columns df @ [n])"
  by (simp add: set_column_def)

lemma rows_set_column:
  assumes rect: "rectangular df" and r: "r \<in> set (rows (set_column n v df))"
  shows "length r = length (columns (set_column n v df)) \<and>
         (\<forall>j<length r. columns (set_column n v df) ! j = n \<longrightarrow> r ! j = v)"
proof (cases "n \<in> set (columns df)")
  case True
  with r obtain r0 where r0: "r0 \<in> set (rows df)"
    and req: "r = map (\<lambda>(c, x). if c = n then v else x) (zip (columns df) r0)"
    by (auto simp: set_column_def)
  from rect r0 have len: "length r0 = length (columns df)" by (simp add: rectangular_iff)
  with True req show ?thesis by (auto simp: set_column_def)
next
  case False
  with r obtain r0 where r0: "r0 \<in> set (rows df)" and req: "r = r0 @ [v]"
    by (auto simp: set_column_def)
  from rect r0 have len: "length r0 = length (columns df)" by (simp add: rectangular_iff)
  have "\<And>j. j < length (columns df) \<Longrightarrow> columns df ! j \<noteq> n"
    using False by (metis nth_mem)
  with False req len show ?thesis
    by (auto simp: set_column_def nth_append less_Suc_eq)
qed

lemma rows_map_columns_keep:
  assumes keep: "\<And>c. g n c = c"
    and r: "r \<in> set (rows (map_columns g df))"
    and inv: "\<And>r0. r0 \<in> set (rows df) \<Longrightarrow> length r0 = length (columns df) \<and>
                 (\<forall>j<length r0. columns df ! j = n \<longrightarrow> r0 ! j = v)"
  shows "length r = length (columns df) \<and> (\<forall>j<length r. columns df ! j = n \<longrightarrow> r ! j = v)"
proof -
  from r obtain r0 where r0: "r0 \<in> set (rows df)"
    and req: "r = map (\<lambda>(c, x). g c x) (zip (columns df) r0)"
    by (auto simp: map_columns_def)
  from inv [OF r0] req keep show ?thesis by auto
qed

lemma provenance_column:
  assumes rect: "rectangular df"
  shows "''Source_File'' \<in> set (columns (clean_and_prepare_df L df src types))
     \<and> (\<forall>r. r \<in> set (rows (clean_and_prepare_df L df src types)) \<longrightarrow>
          length r = length (columns (clean_and_prepare_df L df src types)) \<and>
          (\<forall>j<length r. columns (clean_and_prepare_df L df src types) ! j = ''Source_File''
                \<longrightarrow> r ! j = Str (basename src)))
     \<and> (''Source_File'' \<notin> set (columns df) \<longrightarrow>
          columns (clean_and_prepare_df L df src types) = columns df @ [''Source_File''])"
proof -
  let ?X = "trim (map_columns (\<lambda>col_name. coerce L (types col_name)) (applymap na_replace df))"
  let ?Y = "set_column ''Source_File'' (Str (basename src)) ?X"
  let ?g = "\<lambda>col_name c. if col_name = ''Source_File'' then c else format_out L (types col_name) c"
  have out: "clean_and_prepare_df L df src types = map_columns ?g ?Y"
    by (simp add: clean_and_prepare_df_def Let_def)
  have rX: "rectangular ?X"
    by (intro rectangular_trim rectangular_map_columns rectangular_applymap rect)
  have cX: "columns ?X = columns df"
    by (simp add: columns_trim columns_map_columns columns_applymap)
  have cY: "columns ?Y = (if ''Source_File'' \<in> set (columns df) then columns df
                          else columns df @ [''Source_File''])"
    by (simp add: columns_set_column cX)
  have cO: "columns (map_columns ?g ?Y) = columns ?Y" by (rule columns_map_columns)
  have rowsO: "\<And>r. r \<in> set (rows (map_columns ?g ?Y)) \<Longrightarrow>
      length r = length (columns ?Y) \<and>
      (\<forall>j<length r. columns ?Y ! j = ''Source_File'' \<longrightarrow> r ! j = Str (basename src))"
  proof (rule rows_map_columns_keep [where g = ?g])
    show "\<And>c. ?g ''Source_File'' c = c" by simp
  next
    fix r assume "r \<in> set (rows (map_columns ?g ?Y))"
    then show "r \<in> set (rows (map_columns ?g ?Y))" .
  next
    fix r0 assume "r0 \<in> set (rows ?Y)"
    then show "length r0 = length (columns ?Y) \<and>
       (\<forall>j<length r0. columns ?Y ! j = ''Source_File'' \<longrightarrow> r0 ! j = Str (basename src))"
      by (rule rows_set_column [OF rX])
  qed
  from cY have a: "''Source_File'' \<in> set (columns ?Y)" by simp
  from a rowsO cY show ?thesis unfolding out cO by auto
qed

text \<open>
  Claim C10, as the code has it. The frame \<open>clean_and_prepare_df\<close> returns has a column
  \<open>Source_File\<close> whose cell in every row is the base name of the source name; when the
  raw frame has no column of that name, it is added after all its columns.
\<close>

theorem provenance_column_holds_basename:
  "rectangular df \<longrightarrow>
     ''Source_File'' \<in> set (columns (clean_and_prepare_df L df src types))
     \<and> (\<forall>r. r \<in> set (rows (clean_and_prepare_df L df src types)) \<longrightarrow>
          length r = length (columns (clean_and_prepare_df L df src types)) \<and>
          (\<forall>j<length r. columns (clean_and_prepare_df L df src types) ! j = ''Source_File''
                \<longrightarrow> r ! j = Str (basename src)))
     \<and> (''Source_File'' \<notin> set (columns df) \<longrightarrow>
          columns (clean_and_prepare_df L df src types) = columns df @ [''Source_File''])"
  using provenance_column by blast

theorem provenance_column_holds_basename_witness:
  "rectangular \<lparr>columns = [''A''], rows = [[Str ''y'']]\<rparr>
   \<and> columns (clean_and_prepare_df digits_only \<lparr>columns = [''A''], rows = [[Str ''y'']]\<rparr>
        ''dir/f.xlsx'' [''A'' \<mapsto> Text]) = [''A'', ''Source_File'']
   \<and> rows (clean_and_prepare_df digits_only \<lparr>columns = [''A''], rows = [[Str ''y'']]\<rparr>
        ''dir/f.xlsx'' [''A'' \<mapsto> Text]) = [[Str ''y'', Str ''f.xlsx'']]"
proof -
  have r: "rows (clean_and_prepare_df digits_only \<lparr>columns = [''A''], rows = [[Str ''y'']]\<rparr>
        ''dir/f.xlsx'' [''A'' \<mapsto> Text]) = [[Str ''y'', Str ''f.xlsx'']]"
    by code_simp
  from r show ?thesis
    using provenance_column_holds_basename
      [of "\<lparr>columns = [''A''], rows = [[Str ''y'']]\<rparr>" digits_only "''dir/f.xlsx''"
          "[''A'' \<mapsto> Text]"]
    by (simp add: rectangular_def)
qed

text \<open>
  The claim as stated fails when the raw frame has a column \<open>Source_File\<close> already: the
  assignment overwrites it where it stands, before the data column \<open>A\<close>.
\<close>

theorem existing_source_file_column_is_overwritten_in_place:
  "columns (clean_and_prepare_df digits_only
      \<lparr>columns = [''Source_File'', ''A''], rows = [[Str ''old'', Str ''y'']]\<rparr> ''dir/f.xlsx'' Map.empty) =
     [''Source_File'', ''A'']
   \<and> rows (clean_and_prepare_df digits_only
      \<lparr>columns = [''Source_File'', ''A''], rows = [[Str ''old'', Str ''y'']]\<rparr> ''dir/f.xlsx'' Map.empty) =
     [[Str ''f.xlsx'', Str ''y'']]"
  by code_simp

section \<open>The reference columns\<close>

lemma upload_step_established:
  "first_excel_file_processed_for_cols s \<Longrightarrow> upload_step f s = s"
  by (simp add: upload_step_def)

lemma fold_upload_step_established:
  "first_excel_file_processed_for_cols s \<Longrightarrow> fold upload_step fs s = s"
  by (induction fs) (simp_all add: upload_step_established)

lemma fold_types:
  "fold (\<lambda>col temp_types. temp_types(col \<mapsto> g col)) cols m =
     (\<lambda>c. if c \<in> set cols then Some (g c) else m c)"
  by (induction cols arbitrary: m) (auto simp: fun_eq_iff)

lemma fold_upload_step:
  assumes "\<not> first_excel_file_processed_for_cols s"
  shows "(case find (\<lambda>f. case content f of None \<Rightarrow> False | Some df \<Rightarrow> \<not> df_empty df) fs of
      None \<Rightarrow> column_names_standard (fold upload_step fs s) = column_names_standard s
             \<and> user_column_types (fold upload_step fs s) = user_column_types s
             \<and> \<not> first_excel_file_processed_for_cols (fold upload_step fs s)
    | Some f \<Rightarrow> column_names_standard (fold upload_step fs s) = columns (the (content f))
             \<and> user_column_types (fold upload_step fs s) =
                 (\<lambda>c. if c \<in> set (columns (the (content f))) then Some (suggest_type c) else None)
             \<and> first_excel_file_processed_for_cols (fold upload_step fs s))"
  using assms
proof (induction fs arbitrary: s)
  case Nil
  then show ?case by simp
next
  case (Cons f fs)
  show ?case
  proof (cases "case content f of None \<Rightarrow> False | Some df \<Rightarrow> \<not> df_empty df")
    case True
    then obtain df where df: "content f = Some df" "\<not> df_empty df"
      by (auto split: option.splits)
    let ?s' = "upload_step f s"
    from Cons.prems df have s': "column_names_standard ?s' = columns df"
      "user_column_types ?s' = (\<lambda>c. if c \<in> set (columns df) then Some (suggest_type c) else None)"
      "first_excel_file_processed_for_cols ?s'"
      by (simp_all add: upload_step_def fold_types)
    from s'(3) have "fold upload_step fs ?s' = ?s'" by (rule fold_upload_step_established)
    with True df s' show ?thesis by simp
  next
    case False
    with Cons.prems have s': "column_names_standard (upload_step f s) = column_names_standard s"
      "user_column_types (upload_step f s) = user_column_types s"
      "\<not> first_excel_file_processed_for_cols (upload_step f s)"
      by (auto simp: upload_step_def split: option.splits)
    from Cons.IH [OF s'(3)] False s' show ?thesis
      by (auto split: option.splits)
  qed
qed

text \<open>
  Claim C5, as the code has it. The reference columns and the suggested types come from
  the first uploaded file that is read without an exception and whose frame is not empty
  (it has a column and a row); a file that cannot be read or whose frame is empty is
  passed over; once set, they are not changed by the files that follow.
\<close>

theorem schema_from_first_nonempty_frame:
  "(case find (\<lambda>f. case content f of None \<Rightarrow> False | Some df \<Rightarrow> \<not> df_empty df) files of
      None \<Rightarrow> column_names_standard (handle_upload files) = []
             \<and> \<not> first_excel_file_processed_for_cols (handle_upload files)
    | Some f \<Rightarrow> column_names_standard (handle_upload files) = columns (the (content f))
             \<and> user_column_types (handle_upload files) =
                 (\<lambda>c. if c \<in> set (columns (the (content f))) then Some (suggest_type c) else None)
             \<and> handle_upload (files @ later) = handle_upload files)"
proof -
  have n: "\<not> first_excel_file_processed_for_cols new_session" by (simp add: new_session_def)
  show ?thesis
  proof (cases "find (\<lambda>f. case content f of None \<Rightarrow> False | Some df \<Rightarrow> \<not> df_empty df) files")
    case None
    with fold_upload_step [OF n, of files] show ?thesis
      by (simp add: handle_upload_def new_session_def)
  next
    case (Some f)
    with fold_upload_step [OF n, of files]
    have e: "first_excel_file_processed_for_cols (handle_upload files)"
      and r: "column_names_standard (handle_upload files) = columns (the (content f))"
         "user_column_types (handle_upload files) =
                 (\<lambda>c. if c \<in> set (columns (the (content f))) then Some (suggest_type c) else None)"
      by (simp_all add: handle_upload_def)
    have "handle_upload (files @ later) = fold upload_step later (handle_upload files)"
      by (simp add: handle_upload_def)
    with fold_upload_step_established [OF e] r Some show ?thesis by simp
  qed
qed

theorem schema_from_first_nonempty_frame_witness:
  "column_names_standard (handle_upload
     [\<lparr>file_name = ''bad.xlsx'', content = None\<rparr>,
      \<lparr>file_name = ''a.xlsx'', content = Some \<lparr>columns = [''A''], rows = []\<rparr>\<rparr>,
      \<lparr>file_name = ''b.xlsx'', content = Some \<lparr>columns = [''Date'', ''Total''], rows = [[Num 1, Num 2]]\<rparr>\<rparr>])
     = [''Date'', ''Total'']
   \<and> handle_upload
     ([\<lparr>file_name = ''bad.xlsx'', content = None\<rparr>,
      \<lparr>file_name = ''a.xlsx'', content = Some \<lparr>columns = [''A''], rows = []\<rparr>\<rparr>,
      \<lparr>file_name = ''b.xlsx'', content = Some \<lparr>columns = [''Date'', ''Total''], rows = [[Num 1, Num 2]]\<rparr>\<rparr>]
      @ [\<lparr>file_name = ''c.xlsx'', content = Some \<lparr>columns = [''C''], rows = [[Num 3]]\<rparr>\<rparr>])
     = handle_upload
     [\<lparr>file_name = ''bad.xlsx'', content = None\<rparr>,
      \<lparr>file_name = ''a.xlsx'', content = Some \<lparr>columns = [''A''], rows = []\<rparr>\<rparr>,
      \<lparr>file_name = ''b.xlsx'', content = Some \<lparr>columns = [''Date'', ''Total''], rows = [[Num 1, Num 2]]\<rparr>\<rparr>]"
  using schema_from_first_nonempty_frame
    [of "[\<lparr>file_name = ''bad.xlsx'', content = None\<rparr>,
      \<lparr>file_name = ''a.xlsx'', content = Some \<lparr>columns = [''A''], rows = []\<rparr>\<rparr>,
      \<lparr>file_name = ''b.xlsx'', content = Some \<lparr>columns = [''Date'', ''Total''], rows = [[Num 1, Num 2]]\<rparr>\<rparr>]"
     "[\<lparr>file_name = ''c.xlsx'', content = Some \<lparr>columns = [''C''], rows = [[Num 3]]\<rparr>\<rparr>]"]
  by (simp add: df_empty_def)

text \<open>
  The claim as stated fails on a file with a header and no data row: it is read and has
  one column, and the reference columns are those of the next file.
\<close>

theorem header_only_file_is_passed_over:
  "column_names_standard (handle_upload
     [\<lparr>file_name = ''a.xlsx'', content = Some \<lparr>columns = [''A''], rows = []\<rparr>\<rparr>,
      \<lparr>file_name = ''b.xlsx'', content = Some \<lparr>columns = [''B''], rows = [[Num 1]]\<rparr>\<rparr>]) = [''B'']"
  by (simp add: handle_upload_def new_session_def upload_step_def df_empty_def)

section \<open>Validating the columns of a file\<close>

lemma fold_process_step:
  "fold (process_step L standard types) files (dfs, msgs) =
     (dfs @ map (\<lambda>f. clean_and_prepare_df L (the (content f)) (file_name f) types)
              (filter (\<lambda>f. case content f of None \<Rightarrow> False | Some df \<Rightarrow> columns df = standard) files),
      msgs @ concat (map (\<lambda>f. case content f of
                 None \<Rightarrow> [Error_processing (file_name f)]
               | Some df \<Rightarrow> if columns df \<noteq> standard
                            then [Warning_column_mismatch (file_name f) standard (columns df)]
                            else []) files))"
  by (induction files arbitrary: dfs msgs) (auto simp: process_step_def split: option.splits)

text \<open>
  Claim C7. The loop cleans exactly the files that are read and whose column list equals
  the reference list, in their order; every other file that is read leaves one warning
  with its name, the expected and the found columns, and no frame. The columns \<open>A, B\<close>
  against the reference \<open>B, A\<close> are a mismatch.
\<close>

theorem mismatching_file_is_skipped_with_warning:
  "process_loop L standard types files =
     (map (\<lambda>f. clean_and_prepare_df L (the (content f)) (file_name f) types)
        (filter (\<lambda>f. case content f of None \<Rightarrow> False | Some df \<Rightarrow> columns df = standard) files),
      concat (map (\<lambda>f. case content f of
                 None \<Rightarrow> [Error_processing (file_name f)]
               | Some df \<Rightarrow> if columns df \<noteq> standard
                            then [Warning_column_mismatch (file_name f) standard (columns df)]
                            else []) files))
   \<and> process_loop L [''B'', ''A''] types [\<lparr>file_name = n, content = Some \<lparr>columns = [''A'', ''B''], rows = rs\<rparr>\<rparr>] =
       ([], [Warning_column_mismatch n [''B'', ''A''] [''A'', ''B'']])"
proof -
  have "process_loop L [''B'', ''A''] types
          [\<lparr>file_name = n, content = Some \<lparr>columns = [''A'', ''B''], rows = rs\<rparr>\<rparr>] =
        ([], [Warning_column_mismatch n [''B'', ''A''] [''A'', ''B'']])"
    by (simp add: process_loop_def process_step_def)
  then show ?thesis by (simp add: process_loop_def fold_process_step)
qed

section \<open>The table written\<close>

text \<open>
  Claim C2, evaluated on the batch program: a cell \<open>N/A\<close> becomes \<open>pd.NA\<close>, which
  \<open>astype(str)\<close> prints as \<open><NA>\<close>; only the string \<open>nan\<close> is replaced afterwards, so the
  table holds the strings \<open><NA>\<close> and \<open>NaT\<close>.
\<close>

theorem batch_table_keeps_printed_null:
  "process_files L [\<lparr>file_name = ''dir/f.xlsx'',
       content = Some \<lparr>columns = [''A''], rows = [[Str ''N/A''], [Str ''NaT'']]\<rparr>\<rparr>] =
     Inr \<lparr>columns = [''A'', ''Source_File''],
          rows = [[Str ''<NA>'', Str ''f.xlsx''], [Str ''NaT'', Str ''f.xlsx'']]\<rparr>"
proof -
  have m: "is_missing (Str ''N/A'')" "\<not> is_missing (Str ''NaT'')" by code_simp+
  have bn: "basename ''dir/f.xlsx'' = ''f.xlsx''" by code_simp
  have e: "endswith ''dir/f.xlsx'' ''.xlsx''" by code_simp
  have dt: "dtypes_of \<lparr>columns = [''A''], rows = [[PdNA], [Str ''NaT'']]\<rparr> = [Object]" by code_simp
  have bt: "batch_trim [Object] [[PdNA], [Str ''NaT'']] = [[PdNA], [Str ''NaT'']]" by code_simp
  have nd: "''A'' \<notin> set date_cols" "''A'' \<notin> set numeric_cols"
    "''Source_File'' \<notin> set date_cols" "''Source_File'' \<notin> set numeric_cols" by code_simp+
  have pf: "process_file L \<lparr>file_name = ''dir/f.xlsx'',
       content = Some \<lparr>columns = [''A''], rows = [[Str ''N/A''], [Str ''NaT'']]\<rparr>\<rparr> =
     Some \<lparr>columns = [''A'', ''Source_File''],
          rows = [[Str ''<NA>'', Str ''f.xlsx''], [Str ''NaT'', Str ''f.xlsx'']]\<rparr>"
    using nd by (simp add: process_file_def e applymap_def na_replace_def m dt bt set_column_def bn
        map_columns_def Let_def)
  show ?thesis
    by (simp add: process_files_def pf concat_frames_def reindex_def applymap_def to_sql_def Let_def)
qed

text \<open>The interactive program, on the same file, writes nulls.\<close>

lemma interactive_table_has_nulls:
  "process_button L [''A''] [''A'' \<mapsto> Text] [\<lparr>file_name = ''dir/f.xlsx'',
       content = Some \<lparr>columns = [''A''], rows = [[Str ''N/A''], [Str ''NaT'']]\<rparr>\<rparr>] =
     (Some \<lparr>columns = [''A'', ''Source_File''],
          rows = [[PdNA, Str ''f.xlsx''], [PdNA, Str ''f.xlsx'']]\<rparr>, [])"
proof -
  have m: "is_missing (Str ''N/A'')" "\<not> is_missing (Str ''NaT'')" by code_simp+
  have bn: "basename ''dir/f.xlsx'' = ''f.xlsx''" by code_simp
  have tr: "trim \<lparr>columns = [''A''], rows = [[PdNA], [Str ''NaT'']]\<rparr> =
      \<lparr>columns = [''A''], rows = [[PdNA], [Str ''NaT'']]\<rparr>"
    by code_simp
  have cl: "clean_and_prepare_df L \<lparr>columns = [''A''], rows = [[Str ''N/A''], [Str ''NaT'']]\<rparr>
       ''dir/f.xlsx'' [''A'' \<mapsto> Text] =
     \<lparr>columns = [''A'', ''Source_File''], rows = [[PdNA, Str ''f.xlsx''], [Str ''NaT'', Str ''f.xlsx'']]\<rparr>"
    by (simp add: clean_and_prepare_df_def applymap_def na_replace_def m map_columns_def coerce_def
        replace_na_def tr set_column_def bn format_out_def Let_def)
  show ?thesis
    by (simp add: process_button_def process_loop_def process_step_def cl concat_frames_def
        reindex_def applymap_def replace_na_def Let_def)
qed

end
